theory Spec2Isabelle
  imports Main "HOL-Library.Sublist"
begin

section \<open>Python strings\<close>

text \<open>
  Texts are \<^typ>\<open>string\<close>, one \<^typ>\<open>char\<close> per character, and the development covers
  ASCII text: \<open>upper_char\<close> maps \<open>a\<close> .. \<open>z\<close> to \<open>A\<close> .. \<open>Z\<close> and leaves every
  other character alone, and \<open>isspace\<close> is Python's \<^verbatim>\<open>str.isspace\<close> on the ASCII range
  (tab, line feed, vertical tab, form feed, carriage return, the four separators
  0x1C .. 0x1F and the blank). The regular expression class \<^verbatim>\<open>\s\<close> is the same set.
\<close>

definition isspace :: "char \<Rightarrow> bool" where
  "isspace c = (c \<in> set [CHR 0x09, CHR 0x0A, CHR 0x0B, CHR 0x0C, CHR 0x0D,
                          CHR 0x1C, CHR 0x1D, CHR 0x1E, CHR 0x1F, CHR '' ''])"

definition upper_char :: "char \<Rightarrow> char" where
  "upper_char c =
     (case map_of (zip ''abcdefghijklmnopqrstuvwxyz'' ''ABCDEFGHIJKLMNOPQRSTUVWXYZ'') c of
        Some u \<Rightarrow> u
      | None \<Rightarrow> c)"

definition upper :: "string \<Rightarrow> string" where
  "upper s = map upper_char s"

definition lstrip :: "string \<Rightarrow> string" where
  "lstrip s = dropWhile isspace s"

definition rstrip :: "string \<Rightarrow> string" where
  "rstrip s = rev (dropWhile isspace (rev s))"

text \<open>\<^verbatim>\<open>s.strip()\<close>\<close>

definition strip :: "string \<Rightarrow> string" where
  "strip s = rstrip (lstrip s)"

text \<open>\<^verbatim>\<open>s.startswith(p)\<close>\<close>

definition startswith :: "string \<Rightarrow> string \<Rightarrow> bool" where
  "startswith s p = prefix p s"

text \<open>\<^verbatim>\<open>s.endswith(';')\<close>, for a one-character suffix.\<close>

definition endswith :: "string \<Rightarrow> char \<Rightarrow> bool" where
  "endswith s c = (s \<noteq> [] \<and> last s = c)"

text \<open>\<^verbatim>\<open>p in s\<close>\<close>

definition contains :: "string \<Rightarrow> string \<Rightarrow> bool" where
  "contains s p = sublist p s"


text \<open>\<^verbatim>\<open>sep.join(xs)\<close>\<close>

fun join :: "string \<Rightarrow> string list \<Rightarrow> string" where
  "join sep [] = []"
| "join sep [x] = x"
| "join sep (x # y # ys) = x @ sep @ join sep (y # ys)"

section \<open>The sanitizer: \<^verbatim>\<open>clean_sql_query\<close>\<close>

text \<open>
  \<^verbatim>\<open>re.sub(r'--.*?$', '', query, flags=re.MULTILINE)\<close>: from each \<^verbatim>\<open>--\<close> the lazy
  \<^verbatim>\<open>.*?\<close> runs to the first place where \<^verbatim>\<open>$\<close> matches, the end of the line; the line
  feed stays, and the scan goes on behind the match.
\<close>

function remove_line_comments :: "string \<Rightarrow> string" where
  "remove_line_comments [] = []"
| "remove_line_comments [c] = [c]"
| "remove_line_comments (c # d # cs) =
     (if c = CHR ''-'' \<and> d = CHR ''-''
      then remove_line_comments (dropWhile (\<lambda>x. x \<noteq> CHR 0x0A) cs)
      else c # remove_line_comments (d # cs))"
  by pat_completeness auto
termination
  by (relation "measure length") (auto intro: le_imp_less_Suc length_dropWhile_le le_SucI)

text \<open>The text behind the first \<^verbatim>\<open>*/\<close>, if there is one.\<close>

fun after_close :: "string \<Rightarrow> string option" where
  "after_close [] = None"
| "after_close [c] = None"
| "after_close (c # d # cs) =
     (if c = CHR ''*'' \<and> d = CHR ''/'' then Some cs else after_close (d # cs))"

lemma after_close_length: "after_close s = Some r \<Longrightarrow> length r < length s"
  by (induction s rule: after_close.induct) (auto split: if_splits)

text \<open>
  \<^verbatim>\<open>re.sub(r'/\*.*?\*/', '', query, flags=re.DOTALL)\<close>: from each \<^verbatim>\<open>/*\<close> to the first
  \<^verbatim>\<open>*/\<close> behind it, over line feeds; an opener with no closer behind it stays in the text.
\<close>

function remove_block_comments :: "string \<Rightarrow> string" where
  "remove_block_comments [] = []"
| "remove_block_comments [c] = [c]"
| "remove_block_comments (c # d # cs) =
     (if c = CHR ''/'' \<and> d = CHR ''*''
      then (case after_close cs of
              Some r \<Rightarrow> remove_block_comments r
            | None \<Rightarrow> c # remove_block_comments (d # cs))
      else c # remove_block_comments (d # cs))"
  by pat_completeness auto
termination
  by (relation "measure length") (auto dest: after_close_length)

text \<open>\<^verbatim>\<open>query.replace('`', '')\<close>\<close>

definition remove_backticks :: "string \<Rightarrow> string" where
  "remove_backticks s = filter (\<lambda>c. c \<noteq> CHR 0x60) s"

text \<open>
  \<^verbatim>\<open>re.search(r'SELECT\s+.*', query, re.IGNORECASE | re.DOTALL)\<close>. The pattern
  matches at a place where the six letters stand, in either case, before a whitespace
  character; \<^verbatim>\<open>.*\<close> then takes the rest of the text, so the match found is the text
  from the leftmost such place on.
\<close>

definition select_here :: "string \<Rightarrow> bool" where
  "select_here s =
     (startswith (upper s) ''SELECT'' \<and>
      (case drop 6 s of [] \<Rightarrow> False | x # _ \<Rightarrow> isspace x))"

fun search_select :: "string \<Rightarrow> string option" where
  "search_select [] = None"
| "search_select (c # cs) =
     (if select_here (c # cs) then Some (c # cs) else search_select cs)"

datatype error =
    Only_select_allowed      \<comment> \<open>\<^verbatim>\<open>ValueError("Only SELECT queries are allowed")\<close>\<close>
  | No_valid_select          \<comment> \<open>\<^verbatim>\<open>ValueError("No valid SELECT statement found in query")\<close>\<close>

text \<open>
  The first part of \<^verbatim>\<open>clean_sql_query\<close>, the same text in \<^verbatim>\<open>main.py\<close> (lines 143-160)
  and \<^verbatim>\<open>app.py\<close> (lines 68-85): comments and backticks go, then the text is checked
  for \<^verbatim>\<open>SELECT\<close>.
\<close>

definition select_part :: "string \<Rightarrow> error + string" where
  "select_part query =
     (let query = remove_line_comments query;
          query = remove_block_comments query;
          query = remove_backticks query
      in if \<not> startswith (upper (strip query)) ''SELECT''
         then if contains (upper query) ''SELECT''
              then (case search_select query of
                      Some select_match \<Rightarrow> Inr select_match
                    | None \<Rightarrow> Inl No_valid_select)
              else Inl Only_select_allowed
         else Inr query)"


text \<open>\<^verbatim>\<open>app.py\<close>, \<^verbatim>\<open>clean_sql_query\<close>: lines 87-92 after the common part.\<close>

definition clean_sql_query_app :: "string \<Rightarrow> error + string" where
  "clean_sql_query_app query =
     (case select_part query of
        Inl e \<Rightarrow> Inl e
      | Inr query \<Rightarrow>
          let query = strip query;
              query = (if \<not> endswith query CHR '';'' then query @ '';'' else query)
          in Inr query)"


section \<open>The executors: \<^verbatim>\<open>execute_sql_query\<close>\<close>

text \<open>
  The database is a parameter. For \<^verbatim>\<open>main.py\<close> an engine answers a statement with the
  message of the exception it raises (\<open>Inl\<close>) or with the column names and the rows.
  What a call does to the database is returned with its result: the statements it sent,
  and the number of commits.
\<close>

type_synonym 'v engine = "string \<Rightarrow> string + string list \<times> 'v list list"

record effects =
  executed :: "string list"
  commits :: nat

definition no_effects :: effects where
  "no_effects = \<lparr>executed = [], commits = 0\<rparr>"



text \<open>
  For \<^verbatim>\<open>db_utils.py\<close> the database is a psycopg2 connection. After
  \<^verbatim>\<open>cursor.execute(query)\<close> the cursor has a \<^verbatim>\<open>description\<close> (\<^verbatim>\<open>None\<close> when the statement
  produced no result set), a \<^verbatim>\<open>rowcount\<close>, and \<^verbatim>\<open>fetchall()\<close> returns the rows or raises:
  by the DB-API, and in psycopg2 with \<^verbatim>\<open>ProgrammingError("no results to fetch")\<close>, when the
  statement produced no result set.
\<close>

record 'v cursor =
  description :: "string list option"
  fetchall :: "string + 'v list list"
  rowcount :: int

record 'v database =
  connect_error :: "string option"
  respond :: "string \<Rightarrow> string + 'v cursor"

datatype 'v results = Fetched "'v list list" | Affected "string list"

definition digit_char :: "nat \<Rightarrow> char" where
  "digit_char n = ''0123456789'' ! n"

fun str_nat :: "nat \<Rightarrow> string" where
  "str_nat n = (if n < 10 then [digit_char n] else str_nat (n div 10) @ [digit_char (n mod 10)])"

declare str_nat.simps [simp del]

text \<open>\<^verbatim>\<open>str(i)\<close> for an integer.\<close>

definition str_int :: "int \<Rightarrow> string" where
  "str_int i = (if i < 0 then ''-'' @ str_nat (nat (- i)) else str_nat (nat i))"

definition is_dml :: "string \<Rightarrow> bool" where
  "is_dml query =
     (let u = upper (strip query)
      in startswith u ''INSERT'' \<or> startswith u ''UPDATE'' \<or> startswith u ''DELETE'')"

text \<open>
  \<^verbatim>\<open>db_utils.py\<close>, \<^verbatim>\<open>execute_sql_query\<close>. Every exception raised in the body is caught and
  raised again as \<^verbatim>\<open>Exception(f"Error executing SQL query: {str(e)}")\<close>.
\<close>

definition execute_sql_query_db ::
  "'v database \<Rightarrow> string \<Rightarrow> (string + 'v results \<times> string list) \<times> effects" where
  "execute_sql_query_db db query =
     (if query = []
      then (Inl (''Error executing SQL query: '' @ ''Invalid SQL query''), no_effects)
      else
        let query = strip query;
            query = (if endswith query CHR '';'' then butlast query else query)
        in if count_list query CHR '';'' > 0
           then (Inl (''Error executing SQL query: '' @ ''Multiple SQL queries are not allowed''),
                 no_effects)
           else (case connect_error db of
                   Some e \<Rightarrow>
                     (Inl (''Error executing SQL query: '' @ ''Failed to connect to the database: ''
                           @ e), no_effects)
                 | None \<Rightarrow>
                    (case respond db query of
                       Inl e \<Rightarrow>
                         (Inl (''Error executing SQL query: '' @ e),
                          \<lparr>executed = [query], commits = 0\<rparr>)
                     | Inr cursor \<Rightarrow>
                         let column_names =
                               (case description cursor of Some d \<Rightarrow> d | None \<Rightarrow> [])
                         in (case fetchall cursor of
                               Inl e \<Rightarrow>
                                 (Inl (''Error executing SQL query: '' @ e),
                                  \<lparr>executed = [query], commits = 0\<rparr>)
                             | Inr results \<Rightarrow>
                                 if is_dml query
                                 then (Inr (Affected [''Query affected ''
                                              @ str_int (rowcount cursor) @ '' rows''],
                                            column_names),
                                       \<lparr>executed = [query], commits = 1\<rparr>)
                                 else (Inr (Fetched results, column_names),
                                       \<lparr>executed = [query], commits = 0\<rparr>)))))"

section \<open>The presenter: chart eligibility in \<^verbatim>\<open>on_message\<close>\<close>

text \<open>
  A pandas \<^verbatim>\<open>DataFrame\<close>: the length of its index (\<^verbatim>\<open>df.shape[0]\<close>) and its columns,
  each with a label, a dtype and its values. \<^verbatim>\<open>pd.api.types.is_numeric_dtype\<close> holds of
  the integer, floating, complex and boolean dtypes.
\<close>

datatype dtype = Int64 | UInt64 | Float64 | Complex128 | Bool | Object | Datetime64 | Timedelta64

fun is_numeric_dtype :: "dtype \<Rightarrow> bool" where
  "is_numeric_dtype Int64 = True"
| "is_numeric_dtype UInt64 = True"
| "is_numeric_dtype Float64 = True"
| "is_numeric_dtype Complex128 = True"
| "is_numeric_dtype Bool = True"
| "is_numeric_dtype Object = False"
| "is_numeric_dtype Datetime64 = False"
| "is_numeric_dtype Timedelta64 = False"

record 'v series =
  label :: string
  series_dtype :: dtype
  cells :: "'v list"

record 'v data_frame =
  index_length :: nat
  frame_columns :: "'v series list"

text \<open>\<^verbatim>\<open>df.empty\<close>: one of the two axes has length 0.\<close>

definition empty_frame :: "'v data_frame \<Rightarrow> bool" where
  "empty_frame df = (index_length df = 0 \<or> frame_columns df = [])"

text \<open>
  \<^verbatim>\<open>app.py\<close>, lines 224-236: the conditions under which \<^verbatim>\<open>on_message\<close> goes on to build
  a bar chart.
\<close>

definition chart_eligible :: "'v data_frame \<Rightarrow> bool" where
  "chart_eligible df =
     (if empty_frame df then False
      else if length (frame_columns df) = 2 \<and> index_length df > 1 \<and> index_length df \<le> 15
           then (if is_numeric_dtype (series_dtype (frame_columns df ! 1)) then True else False)
           else False)"

text \<open>
  The chart elements of the answer (lines 222-255): \<^verbatim>\<open>px.bar\<close> is a parameter, and an
  exception it raises is logged and leaves the list empty.
\<close>

definition chart_elements :: "('v data_frame \<Rightarrow> string + 'fig) \<Rightarrow> 'v data_frame \<Rightarrow> 'fig list" where
  "chart_elements px_bar df =
     (if chart_eligible df
      then (case px_bar df of Inr fig \<Rightarrow> [fig] | Inl viz_error \<Rightarrow> [])
      else [])"

section \<open>The error classifier in \<^verbatim>\<open>process_query\<close>\<close>





section \<open>Schema introspection\<close>

text \<open>
  \<^verbatim>\<open>main.py\<close> reads the catalog in two kinds of query: the names of the tables outside
  the system schemas, and for a table its columns as pairs of name and data type. Each
  answer is \<open>Inl\<close> when the query raises.
\<close>

record catalog =
  table_names :: "string + string list"
  columns_of :: "string \<Rightarrow> string + (string \<times> string) list"

text \<open>The loop of \<^verbatim>\<open>get_table_info\<close> (lines 66-84); an exception ends it.\<close>

fun table_descriptions ::
  "(string \<Rightarrow> string + (string \<times> string) list) \<Rightarrow> string list \<Rightarrow> string + string list" where
  "table_descriptions cols [] = Inr []"
| "table_descriptions cols (table_name # tables) =
     (case cols table_name of
        Inl e \<Rightarrow> Inl e
      | Inr columns \<Rightarrow>
          let column_descriptions = map (\<lambda>(name, data_type). name @ '' '' @ data_type) columns;
              table_description =
                ''CREATE TABLE '' @ table_name @ '' ('' @ [CHR 0x0A] @ ''  ''
                @ join ('','' @ [CHR 0x0A] @ ''  '') column_descriptions
                @ [CHR 0x0A] @ '');''
          in (case table_descriptions cols tables of
                Inl e \<Rightarrow> Inl e
              | Inr table_info \<Rightarrow> Inr (table_description # table_info)))"

text \<open>\<^verbatim>\<open>main.py\<close>, \<^verbatim>\<open>get_table_info\<close>\<close>

definition get_table_info :: "catalog \<Rightarrow> string" where
  "get_table_info cat =
     (case table_names cat of
        Inl e \<Rightarrow> ''Error getting database schema information.''
      | Inr tables \<Rightarrow>
          (case table_descriptions (columns_of cat) tables of
             Inl e \<Rightarrow> ''Error getting database schema information.''
           | Inr table_info \<Rightarrow> join [CHR 0x0A, CHR 0x0A] table_info))"

definition hidden_tables :: "string list" where
  "hidden_tables = [''users'']"

text \<open>The loop of \<^verbatim>\<open>get_tables_and_columns\<close> (lines 111-131).\<close>

fun tables_and_columns ::
  "(string \<Rightarrow> string + (string \<times> string) list) \<Rightarrow> string list
     \<Rightarrow> string + (string \<times> string list) list" where
  "tables_and_columns cols [] = Inr []"
| "tables_and_columns cols (table_name # tables) =
     (if table_name \<in> set hidden_tables
      then tables_and_columns cols tables
      else (case cols table_name of
              Inl e \<Rightarrow> Inl e
            | Inr columns \<Rightarrow>
                (case tables_and_columns cols tables of
                   Inl e \<Rightarrow> Inl e
                 | Inr result \<Rightarrow> Inr ((table_name, map fst columns) # result))))"

text \<open>
  \<^verbatim>\<open>main.py\<close>, \<^verbatim>\<open>get_tables_and_columns\<close>: the dictionaries
  \<^verbatim>\<open>{"name": ..., "columns": ...}\<close> as pairs.
\<close>

definition get_tables_and_columns :: "catalog \<Rightarrow> (string \<times> string list) list" where
  "get_tables_and_columns cat =
     (case table_names cat of
        Inl e \<Rightarrow> []
      | Inr tables \<Rightarrow>
          (case tables_and_columns (columns_of cat) tables of
             Inl e \<Rightarrow> []
           | Inr result \<Rightarrow> result))"

text \<open>
  \<^verbatim>\<open>db_utils.py\<close>, \<^verbatim>\<open>get_table_info\<close>. A row of the column query: table name, column name,
  data type, default (\<^verbatim>\<open>None\<close> when absent) and \<^verbatim>\<open>is_nullable\<close>.
\<close>

type_synonym column_row = "string \<times> string \<times> string \<times> string option \<times> string"

text \<open>
  \<^verbatim>\<open>table_info\<close>, a dictionary in insertion order, as an association list:
  a new table name goes to the end, a known one gets the column appended.
\<close>

fun add_column :: "string \<Rightarrow> string \<Rightarrow> (string \<times> string list) list \<Rightarrow> (string \<times> string list) list" where
  "add_column t c [] = [(t, [c])]"
| "add_column t c ((t', cs) # rest) =
     (if t = t' then (t', cs @ [c]) # rest else (t', cs) # add_column t c rest)"

definition column_text :: "column_row \<Rightarrow> string" where
  "column_text row =
     (case row of (table_name, column_name, data_type, column_default, is_nullable) \<Rightarrow>
        let nullable = (if is_nullable = ''YES'' then ''NULL'' else ''NOT NULL'');
            default = (case column_default of
                         None \<Rightarrow> []
                       | Some d \<Rightarrow> if d = [] then [] else ''DEFAULT '' @ d)
        in strip (column_name @ '' '' @ data_type @ '' '' @ nullable @ '' '' @ default))"

definition group_columns :: "column_row list \<Rightarrow> (string \<times> string list) list" where
  "group_columns rows = foldl (\<lambda>table_info row. add_column (fst row) (column_text row) table_info) [] rows"

definition create_table_text :: "string \<times> string list \<Rightarrow> string" where
  "create_table_text entry =
     (case entry of (table_name, columns) \<Rightarrow>
        ''CREATE TABLE '' @ table_name @ '' ('' @ [CHR 0x0A] @ ''  ''
        @ join ('','' @ [CHR 0x0A] @ ''  '') columns @ [CHR 0x0A] @ '');'')"

definition foreign_key_text :: "string \<times> string \<times> string \<times> string \<Rightarrow> string" where
  "foreign_key_text fk =
     (case fk of (table, column, ref_table, ref_column) \<Rightarrow>
        ''-- '' @ table @ ''.'' @ column @ '' -> '' @ ref_table @ ''.'' @ ref_column)"

text \<open>
  The two queries each run on a connection of their own; \<open>Inl\<close> is the message of the
  exception raised by the connection or the query.
\<close>

definition get_table_info_db ::
  "(string + column_row list) \<Rightarrow> (string + (string \<times> string \<times> string \<times> string) list) \<Rightarrow> string" where
  "get_table_info_db column_query foreign_key_query =
     (case column_query of
        Inl e \<Rightarrow> ''Error getting table information: '' @ e
      | Inr tables \<Rightarrow>
          if tables = [] then ''No tables found in the database.''
          else
            let result = map create_table_text (group_columns tables)
            in (case foreign_key_query of
                  Inl e \<Rightarrow> ''Error getting table information: '' @ e
                | Inr foreign_keys \<Rightarrow>
                    let result =
                          (if foreign_keys \<noteq> []
                           then result @ [[CHR 0x0A] @ ''-- Foreign Key Relationships:'']
                                @ map foreign_key_text foreign_keys
                           else result)
                    in join [CHR 0x0A, CHR 0x0A] result))"

section \<open>Databases used in the examples\<close>

definition refusing_engine :: "string engine" where
  "refusing_engine statement = Inl ''permission denied''"


text \<open>A cursor after a statement with no result set that changed three rows.\<close>

definition dml_cursor :: "string cursor" where
  "dml_cursor = \<lparr>description = None, fetchall = Inl ''no results to fetch'', rowcount = 3\<rparr>"

definition dml_database :: "string database" where
  "dml_database = \<lparr>connect_error = None, respond = (\<lambda>statement. Inr dml_cursor)\<rparr>"

text \<open>A cursor after a statement with \<^verbatim>\<open>RETURNING id\<close> that changed two rows.\<close>

definition returning_cursor :: "string cursor" where
  "returning_cursor =
     \<lparr>description = Some [''id''], fetchall = Inr [[''7''], [''8'']], rowcount = 2\<rparr>"

definition returning_database :: "string database" where
  "returning_database = \<lparr>connect_error = None, respond = (\<lambda>statement. Inr returning_cursor)\<rparr>"

definition empty_catalog :: catalog where
  "empty_catalog = \<lparr>table_names = Inr [], columns_of = (\<lambda>table_name. Inr [])\<rparr>"

definition shop_catalog :: catalog where
  "shop_catalog =
     \<lparr>table_names = Inr [''projects'', ''users''],
      columns_of = (\<lambda>table_name.
         if table_name = ''users'' then Inr [(''email'', ''text'')]
         else Inr [(''status'', ''text'')])\<rparr>"

definition frame :: "nat \<Rightarrow> dtype list \<Rightarrow> string data_frame" where
  "frame n dtypes =
     \<lparr>index_length = n,
      frame_columns = map (\<lambda>d. \<lparr>label = ''c'', series_dtype = d, cells = replicate n ''0''\<rparr>) dtypes\<rparr>"

text \<open>A chart builder that succeeds.\<close>

definition bar_chart :: "string data_frame \<Rightarrow> string + string" where
  "bar_chart df = Inr ''bar''"

section \<open>Facts about texts\<close>
































lemma clean_sql_query_app_success: "(\<exists>s. clean_sql_query_app q = Inr s) \<longleftrightarrow> (\<exists>b. select_part q = Inr b)"
  by (auto simp: clean_sql_query_app_def Let_def split: sum.splits)

















section \<open>Claims about the sanitizer\<close>













section \<open>Facts about the executors\<close>








text \<open>\<^verbatim>\<open>db_utils.py\<close>: what holds of \<^verbatim>\<open>execute_sql_query\<close> there.\<close>

lemma execute_sql_query_db_sends:
  assumes "q \<noteq> []" "connect_error db = None" "CHR '';'' \<notin> set (butlast (strip q))"
  shows "executed (snd (execute_sql_query_db db q)) =
           [if endswith (strip q) CHR '';'' then butlast (strip q) else strip q]"
proof -
  let ?x = "strip q"
  let ?y = "if endswith ?x CHR '';'' then butlast ?x else ?x"
  have "CHR '';'' \<notin> set ?y"
  proof (cases "endswith ?x CHR '';''")
    case True
    with assms(3) show ?thesis by simp
  next
    case False
    with assms(3) show ?thesis
      by (cases ?x rule: rev_cases) (auto simp: endswith_def)
  qed
  then have "count_list ?y CHR '';'' = 0"
    by (simp only: count_list_0_iff not_False_eq_True)
  with assms(1,2) show ?thesis
    by (simp add: execute_sql_query_db_def Let_def split: sum.splits)
qed

lemma execute_sql_query_db_commits:
  assumes "q \<noteq> []" "connect_error db = None" "CHR '';'' \<notin> set (butlast (strip q))"
    and "respond db (if endswith (strip q) CHR '';'' then butlast (strip q) else strip q) = Inr cur"
    and "fetchall cur = Inr rows"
    and "is_dml (if endswith (strip q) CHR '';'' then butlast (strip q) else strip q)"
  shows "fst (execute_sql_query_db db q) =
           Inr (Affected [''Query affected '' @ str_int (rowcount cur) @ '' rows''],
                case description cur of Some d \<Rightarrow> d | None \<Rightarrow> [])
         \<and> commits (snd (execute_sql_query_db db q)) = 1"
proof -
  let ?x = "strip q"
  let ?y = "if endswith ?x CHR '';'' then butlast ?x else ?x"
  have "CHR '';'' \<notin> set ?y"
  proof (cases "endswith ?x CHR '';''")
    case True
    with assms(3) show ?thesis by simp
  next
    case False
    with assms(3) show ?thesis
      by (cases ?x rule: rev_cases) (auto simp: endswith_def)
  qed
  then have "count_list ?y CHR '';'' = 0"
    by (simp only: count_list_0_iff not_False_eq_True)
  with assms(1,2,4,5,6) show ?thesis
    by (simp add: execute_sql_query_db_def Let_def)
qed

section \<open>Claims about the executors\<close>




text \<open>
  Claim C4: \<^verbatim>\<open>execute_sql_query\<close> of \<^verbatim>\<open>db_utils.py\<close> is to commit and return the
  row-count message for every statement that starts with \<^verbatim>\<open>INSERT\<close>, \<^verbatim>\<open>UPDATE\<close> or
  \<^verbatim>\<open>DELETE\<close>. The code calls \<^verbatim>\<open>cursor.fetchall()\<close> before it looks at the statement;
  for a statement with no result set that call raises, so the function raises and does
  not commit. Here the database ran \<^verbatim>\<open>DELETE FROM projects\<close> on three rows.
\<close>

theorem execute_sql_query_db_delete_fails:
  "execute_sql_query_db dml_database ''DELETE FROM projects'' =
     (Inl ''Error executing SQL query: no results to fetch'',
      \<lparr>executed = [''DELETE FROM projects''], commits = 0\<rparr>)"
  by code_simp

section \<open>Claims about the presenter\<close>

text \<open>
  Claim C7. A result is chart-eligible exactly when it has two columns, more than one
  and at most fifteen rows, and a second column of numeric dtype; a chart element is
  only ever produced for an eligible result.
\<close>

theorem chart_eligible_iff:
  "(chart_eligible df \<longleftrightarrow>
      length (frame_columns df) = 2 \<and> 1 < index_length df \<and> index_length df \<le> 15
      \<and> is_numeric_dtype (series_dtype (frame_columns df ! 1)))
   \<and> (chart_elements px_bar df \<noteq> [] \<longrightarrow> chart_eligible df)"
  by (auto simp: chart_eligible_def chart_elements_def empty_frame_def)

theorem chart_eligible_iff_witness:
  "chart_eligible (frame 2 [Object, Int64]) \<and> chart_eligible (frame 15 [Object, Float64])
   \<and> \<not> chart_eligible (frame 1 [Object, Int64]) \<and> \<not> chart_eligible (frame 16 [Object, Int64])
   \<and> \<not> chart_eligible (frame 2 [Object, Object]) \<and> \<not> chart_eligible (frame 15 [Int64, Object])
   \<and> \<not> chart_eligible (frame 5 [Int64]) \<and> \<not> chart_eligible (frame 5 [Object, Int64, Int64])
   \<and> chart_elements bar_chart (frame 2 [Object, Int64]) = [''bar'']"
proof -
  have e: "chart_elements bar_chart (frame 2 [Object, Int64]) = [''bar'']"
    by (simp add: chart_elements_def chart_eligible_def empty_frame_def frame_def bar_chart_def)
  then have "chart_elements bar_chart (frame 2 [Object, Int64]) \<noteq> []"
    by simp
  with chart_eligible_iff [of "frame 2 [Object, Int64]" bar_chart]
  have "chart_eligible (frame 2 [Object, Int64])"
    by blast
  moreover have "chart_eligible (frame 15 [Object, Float64])"
    using chart_eligible_iff [of "frame 15 [Object, Float64]" bar_chart]
    by (simp add: frame_def)
  moreover have "\<not> chart_eligible (frame 1 [Object, Int64])"
    using chart_eligible_iff [of "frame 1 [Object, Int64]" bar_chart]
    by (simp add: frame_def)
  moreover have "\<not> chart_eligible (frame 16 [Object, Int64])"
    using chart_eligible_iff [of "frame 16 [Object, Int64]" bar_chart]
    by (simp add: frame_def)
  moreover have "\<not> chart_eligible (frame 2 [Object, Object])"
    using chart_eligible_iff [of "frame 2 [Object, Object]" bar_chart]
    by (simp add: frame_def)
  moreover have "\<not> chart_eligible (frame 15 [Int64, Object])"
    using chart_eligible_iff [of "frame 15 [Int64, Object]" bar_chart]
    by (simp add: frame_def)
  moreover have "\<not> chart_eligible (frame 5 [Int64])"
    using chart_eligible_iff [of "frame 5 [Int64]" bar_chart]
    by (simp add: frame_def)
  moreover have "\<not> chart_eligible (frame 5 [Object, Int64, Int64])"
    using chart_eligible_iff [of "frame 5 [Object, Int64, Int64]" bar_chart]
    by (simp add: frame_def)
  ultimately show ?thesis
    using e by blast
qed

section \<open>Facts about the error classifier\<close>









section \<open>Claims about the error classifier\<close>




section \<open>Facts about schema introspection\<close>

lemma join_sublist: "d \<in> set ds \<Longrightarrow> sublist d (join sep ds)"
proof (induction sep ds rule: join.induct)
  case (1 sep)
  then show ?case by simp
next
  case (2 sep x)
  then show ?case by simp
next
  case (3 sep x y ys)
  show ?case
  proof (cases "d = x")
    case True
    then show ?thesis by simp
  next
    case False
    with "3.prems" have "d \<in> set (y # ys)"
      by simp
    then have "sublist d (join sep (y # ys))"
      by (rule "3.IH")
    then obtain ps ss where "join sep (y # ys) = ps @ d @ ss"
      by (auto simp: sublist_def)
    then have "join sep (x # y # ys) = (x @ sep @ ps) @ d @ ss"
      by simp
    then show ?thesis
      unfolding sublist_def by blast
  qed
qed

lemma join_nonempty: "ds \<noteq> [] \<Longrightarrow> hd ds \<noteq> [] \<Longrightarrow> join sep ds \<noteq> []"
  by (induction sep ds rule: join.induct) simp_all

lemma table_descriptions_all:
  assumes "\<forall>t\<in>set ts. \<exists>cs. cols t = Inr cs"
  shows "\<exists>ds. table_descriptions cols ts = Inr ds
          \<and> (\<forall>t\<in>set ts. \<exists>d\<in>set ds. prefix (''CREATE TABLE '' @ t @ '' ('') d)"
  using assms
proof (induction ts)
  case Nil
  then show ?case by simp
next
  case (Cons t ts)
  from Cons.prems obtain cs where cs: "cols t = Inr cs"
    by auto
  from Cons.prems have "\<forall>t\<in>set ts. \<exists>cs. cols t = Inr cs"
    by simp
  from Cons.IH [OF this] obtain ds where ds: "table_descriptions cols ts = Inr ds"
    and all: "\<forall>t\<in>set ts. \<exists>d\<in>set ds. prefix (''CREATE TABLE '' @ t @ '' ('') d"
    by blast
  let ?d = "''CREATE TABLE '' @ t @ '' ('' @ [CHR 0x0A] @ ''  ''
                @ join ('','' @ [CHR 0x0A] @ ''  '') (map (\<lambda>(name, data_type). name @ '' '' @ data_type) cs)
                @ [CHR 0x0A] @ '');''"
  have e: "table_descriptions cols (t # ts) = Inr (?d # ds)"
    using cs ds by (simp add: Let_def)
  have "prefix (''CREATE TABLE '' @ t @ '' ('') ?d"
    by (simp add: prefix_def)
  with all have "\<forall>u\<in>set (t # ts). \<exists>d\<in>set (?d # ds). prefix (''CREATE TABLE '' @ u @ '' ('') d"
    by auto
  with e show ?case
    by blast
qed

lemma tables_and_columns_names:
  "tables_and_columns cols ts = Inr r \<Longrightarrow>
     map fst r = filter (\<lambda>t. t \<notin> set hidden_tables) ts"
  by (induction ts arbitrary: r) (auto split: if_splits sum.splits)

lemma tables_and_columns_all:
  "\<forall>t\<in>set ts. \<exists>cs. cols t = Inr cs \<Longrightarrow> \<exists>r. tables_and_columns cols ts = Inr r"
  by (induction ts) (auto split: sum.splits)

lemma get_tables_and_columns_hides:
  "t \<in> set hidden_tables \<Longrightarrow> t \<notin> fst ` set (get_tables_and_columns cat)"
proof
  assume h: "t \<in> set hidden_tables" and i: "t \<in> fst ` set (get_tables_and_columns cat)"
  show False
  proof (cases "table_names cat")
    case (Inl e)
    with i show ?thesis
      by (simp add: get_tables_and_columns_def)
  next
    case (Inr ts)
    show ?thesis
    proof (cases "tables_and_columns (columns_of cat) ts")
      case (Inl e)
      with Inr i show ?thesis
        by (simp add: get_tables_and_columns_def)
    next
      case r: (Inr r)
      with Inr have "get_tables_and_columns cat = r"
        by (simp add: get_tables_and_columns_def)
      with i have "t \<in> set (map fst r)"
        by simp
      also have "map fst r = filter (\<lambda>t. t \<notin> set hidden_tables) ts"
        using r by (rule tables_and_columns_names)
      finally show ?thesis
        using h by simp
    qed
  qed
qed

lemma get_table_info_lists:
  assumes "table_names cat = Inr ts" "\<forall>t\<in>set ts. \<exists>cs. columns_of cat t = Inr cs" "t \<in> set ts"
  shows "contains (get_table_info cat) (''CREATE TABLE '' @ t @ '' ('')"
proof -
  from table_descriptions_all [OF assms(2)] obtain ds where
    ds: "table_descriptions (columns_of cat) ts = Inr ds"
    and all: "\<forall>t\<in>set ts. \<exists>d\<in>set ds. prefix (''CREATE TABLE '' @ t @ '' ('') d"
    by blast
  from all assms(3) obtain d where d: "d \<in> set ds" "prefix (''CREATE TABLE '' @ t @ '' ('') d"
    by blast
  have "sublist d (join [CHR 0x0A, CHR 0x0A] ds)"
    using d(1) by (rule join_sublist)
  with d(2) have "sublist (''CREATE TABLE '' @ t @ '' ('') (join [CHR 0x0A, CHR 0x0A] ds)"
    using prefix_imp_sublist sublist_order.order_trans by blast
  then show ?thesis
    using assms(1) ds by (simp add: get_table_info_def contains_def)
qed

lemma get_tables_and_columns_names:
  assumes "table_names cat = Inr ts" "\<forall>t\<in>set ts. \<exists>cs. columns_of cat t = Inr cs"
  shows "map fst (get_tables_and_columns cat) = filter (\<lambda>t. t \<notin> set hidden_tables) ts"
proof -
  from tables_and_columns_all [OF assms(2)] obtain r where
    r: "tables_and_columns (columns_of cat) ts = Inr r"
    by blast
  then have "get_tables_and_columns cat = r"
    using assms(1) by (simp add: get_tables_and_columns_def)
  with tables_and_columns_names [OF r] show ?thesis
    by simp
qed

text \<open>\<^verbatim>\<open>db_utils.py\<close>: \<^verbatim>\<open>get_table_info\<close> there has the sentinel and never returns the empty text.\<close>

lemma add_column_nonempty: "add_column t c acc \<noteq> []"
  by (cases acc) (auto split: if_splits)

lemma group_columns_nonempty: "rows \<noteq> [] \<Longrightarrow> group_columns rows \<noteq> []"
  by (cases rows rule: rev_cases) (simp_all add: group_columns_def add_column_nonempty)

lemma create_table_text_nonempty: "create_table_text entry \<noteq> []"
  by (cases entry) (simp add: create_table_text_def)

lemma get_table_info_db_sentinel:
  "get_table_info_db (Inr []) foreign_key_query = ''No tables found in the database.''"
  by (simp add: get_table_info_db_def)

lemma get_table_info_db_nonempty: "get_table_info_db column_query foreign_key_query \<noteq> []"
proof (cases column_query)
  case (Inl e)
  then show ?thesis
    by (simp add: get_table_info_db_def)
next
  case (Inr rows)
  show ?thesis
  proof (cases "rows = []")
    case True
    with Inr show ?thesis
      by (simp add: get_table_info_db_def)
  next
    case False
    let ?result = "map create_table_text (group_columns rows)"
    from False have ne: "?result \<noteq> []"
      by (simp add: group_columns_nonempty)
    then have "hd ?result \<noteq> []"
      by (simp add: hd_map create_table_text_nonempty)
    with ne have j: "\<And>more. join [CHR 0x0A, CHR 0x0A] (?result @ more) \<noteq> []"
      by (intro join_nonempty) simp_all
    from j [of "[]"] have j0: "join [CHR 0x0A, CHR 0x0A] ?result \<noteq> []"
      by simp
    show ?thesis
    proof (cases foreign_key_query)
      case (Inl e)
      with Inr False show ?thesis
        by (simp add: get_table_info_db_def Let_def)
    next
      case fk: (Inr foreign_keys)
      with Inr False j j0 show ?thesis
        by (simp add: get_table_info_db_def Let_def)
    qed
  qed
qed

lemma get_table_info_no_tables:
  "table_names cat = Inr [] \<Longrightarrow> get_table_info cat = []"
  by (simp add: get_table_info_def)

section \<open>Claims about schema introspection\<close>

text \<open>
  Claim C9: with no table in the database \<^verbatim>\<open>get_table_info\<close> is to return a sentinel
  and never the empty text. \<^verbatim>\<open>get_table_info\<close> of \<^verbatim>\<open>main.py\<close> joins an empty list of
  descriptions and returns the empty text.
\<close>

theorem get_table_info_empty_text:
  "get_table_info empty_catalog = []"
  by (simp add: get_table_info_def empty_catalog_def)

text \<open>
  Claim C10. \<^verbatim>\<open>get_tables_and_columns\<close> never lists a table of \<open>hidden_tables\<close>. When
  the catalog queries succeed, the text of \<^verbatim>\<open>get_table_info\<close> holds a
  \<^verbatim>\<open>CREATE TABLE\<close> block for every table of the catalog, the hidden ones too, and
  \<^verbatim>\<open>get_tables_and_columns\<close> lists the tables that are not hidden, in order.
\<close>

theorem hidden_tables_asymmetry:
  "(\<forall>t\<in>set hidden_tables. t \<notin> fst ` set (get_tables_and_columns cat))
   \<and> (table_names cat = Inr ts \<and> (\<forall>t\<in>set ts. \<exists>cs. columns_of cat t = Inr cs) \<longrightarrow>
        (\<forall>t\<in>set ts. contains (get_table_info cat) (''CREATE TABLE '' @ t @ '' (''))
        \<and> map fst (get_tables_and_columns cat) = filter (\<lambda>t. t \<notin> set hidden_tables) ts)"
  using get_tables_and_columns_hides [of _ cat] get_table_info_lists [of cat ts]
    get_tables_and_columns_names [of cat ts]
  by blast

theorem hidden_tables_asymmetry_witness:
  "''users'' \<in> set hidden_tables
   \<and> table_names shop_catalog = Inr [''projects'', ''users'']
   \<and> ''users'' \<notin> fst ` set (get_tables_and_columns shop_catalog)
   \<and> contains (get_table_info shop_catalog) ''CREATE TABLE users (''
   \<and> contains (get_table_info shop_catalog) ''CREATE TABLE projects (''
   \<and> map fst (get_tables_and_columns shop_catalog) = [''projects'']"
proof -
  have h: "''users'' \<in> set hidden_tables"
    by (simp add: hidden_tables_def)
  have n: "table_names shop_catalog = Inr [''projects'', ''users'']"
    by (simp add: shop_catalog_def)
  have c: "\<forall>t\<in>set [''projects'', ''users'']. \<exists>cs. columns_of shop_catalog t = Inr cs"
    by (simp add: shop_catalog_def)
  note a = hidden_tables_asymmetry [of shop_catalog "[''projects'', ''users'']"]
  from a h have "''users'' \<notin> fst ` set (get_tables_and_columns shop_catalog)"
    by blast
  moreover from a n c have "contains (get_table_info shop_catalog) (''CREATE TABLE '' @ ''users'' @ '' ('')"
    "contains (get_table_info shop_catalog) (''CREATE TABLE '' @ ''projects'' @ '' ('')"
    by simp_all
  moreover from a n c have "map fst (get_tables_and_columns shop_catalog)
      = filter (\<lambda>t. t \<notin> set hidden_tables) [''projects'', ''users'']"
    by blast
  ultimately show ?thesis
    using h n by (simp add: hidden_tables_def)
qed

end
